theory Spec2Isabelle
  imports Complex_Main
begin

section \<open>Python strings\<close>

text \<open>
  Text is a list of HOL characters, read as the code points 0 to 255. The string
  methods below have CPython's meaning on these code points. The interpreter's limit
  on the length of int/str conversions is not modelled.
\<close>

definition isspace :: "char \<Rightarrow> bool" where
  \<comment> \<open>\<open>str.isspace\<close> on one character; also what \<open>\s\<close> and \<open>strip()\<close> use.\<close>
  "isspace c = (let n = (of_char c :: nat)
                in (9 \<le> n \<and> n \<le> 13) \<or> (28 \<le> n \<and> n \<le> 32) \<or> n = 133 \<or> n = 160)"

definition isdigit :: "char \<Rightarrow> bool" where
  \<comment> \<open>the decimal digits, what \<open>\d\<close> and \<open>int()\<close> accept\<close>
  "isdigit c = (let n = (of_char c :: nat) in 48 \<le> n \<and> n \<le> 57)"

definition char_lower :: "char \<Rightarrow> char" where
  "char_lower c = (let n = (of_char c :: nat)
                   in if (65 \<le> n \<and> n \<le> 90) \<or> (192 \<le> n \<and> n \<le> 222 \<and> n \<noteq> 215)
                      then char_of (n + 32) else c)"

definition char_upper :: "char \<Rightarrow> char" where
  "char_upper c = (let n = (of_char c :: nat)
                   in if (97 \<le> n \<and> n \<le> 122) \<or> (224 \<le> n \<and> n \<le> 254 \<and> n \<noteq> 247)
                      then char_of (n - 32) else c)"

definition py_lower :: "string \<Rightarrow> string" where
  "py_lower s = map char_lower s"

definition py_strip :: "string \<Rightarrow> string" where
  "py_strip s = rev (dropWhile isspace (rev (dropWhile isspace s)))"

fun startswith :: "string \<Rightarrow> string \<Rightarrow> bool" where
  "startswith s [] = True"
| "startswith [] (p # ps) = False"
| "startswith (c # cs) (p # ps) = (c = p \<and> startswith cs ps)"

definition endswith :: "string \<Rightarrow> string \<Rightarrow> bool" where
  "endswith s suffix = startswith (rev s) (rev suffix)"

fun py_in :: "string \<Rightarrow> string \<Rightarrow> bool" where
  \<comment> \<open>\<open>sub in s\<close>\<close>
  "py_in sub [] = (sub = [])"
| "py_in sub (c # cs) = (startswith (c # cs) sub \<or> py_in sub cs)"

function repl :: "string \<Rightarrow> string \<Rightarrow> string \<Rightarrow> string" where
  "repl old new [] = []"
| "repl old new (c # cs) =
     (if old \<noteq> [] \<and> startswith (c # cs) old
      then new @ repl old new (drop (length old) (c # cs))
      else c # repl old new cs)"
  by pat_completeness auto
termination
  by (relation "measure (\<lambda>(old, new, s). length s)") auto

definition py_replace :: "string \<Rightarrow> string \<Rightarrow> string \<Rightarrow> string" where
  \<comment> \<open>\<open>s.replace(old, new)\<close>: every occurrence, leftmost first, without overlap\<close>
  "py_replace old new s =
     (if old = [] then new @ concat (map (\<lambda>c. c # new) s) else repl old new s)"

definition last_n :: "nat \<Rightarrow> string \<Rightarrow> string" where
  \<comment> \<open>the slice \<open>s[-n:]\<close> for \<open>n > 0\<close>\<close>
  "last_n n s = drop (length s - n) s"

fun int_body :: "string \<Rightarrow> bool" where
  \<comment> \<open>digits, with single underscores allowed between digits\<close>
  "int_body [] = False"
| "int_body [c] = isdigit c"
| "int_body (c # d # r) =
     (isdigit c \<and> (if d = CHR ''_'' then int_body r else int_body (d # r)))"

definition digit_val :: "char \<Rightarrow> nat" where
  "digit_val c = of_char c - 48"

definition digits_value :: "string \<Rightarrow> nat" where
  "digits_value ds = foldl (\<lambda>acc c. 10 * acc + digit_val c) 0 ds"

definition py_int :: "string \<Rightarrow> int option" where
  \<comment> \<open>\<open>int(s)\<close>; \<open>None\<close> stands for the ValueError\<close>
  "py_int s =
     (let t = py_strip s;
          neg = (t \<noteq> [] \<and> hd t = CHR ''-'');
          body = (if t \<noteq> [] \<and> (hd t = CHR ''-'' \<or> hd t = CHR ''+'') then tl t else t)
      in if int_body body
         then Some ((if neg then - 1 else 1) * int (digits_value (filter isdigit body)))
         else None)"

fun str_nat :: "nat \<Rightarrow> string" where
  "str_nat n =
     (if n < 10 then [char_of (48 + n)]
      else str_nat (n div 10) @ [char_of (48 + n mod 10)])"

declare str_nat.simps [simp del]

definition py_str :: "int \<Rightarrow> string" where
  \<comment> \<open>\<open>str(n)\<close>, as an f-string formats an int\<close>
  "py_str n = (if n < 0 then CHR ''-'' # str_nat (nat (- n)) else str_nat (nat n))"

section \<open>Regular expressions\<close>

text \<open>
  The patterns of the program use literals, \<open>\d\<close>, \<open>\s\<close>, bracket classes, one
  capturing group, alternation and greedy repetition. \<open>re_m\<close> is the backtracking
  matcher: alternatives are tried left to right, a repetition first tries one more
  iteration, and the first way that lets the rest of the pattern match wins.
\<close>

datatype citem = Lit char | Digit | Space | Range char char

datatype regex =
    Eps
  | Chr citem
  | Cls "citem list"
  | Seq regex regex
  | Alt regex regex
  | Opt regex
  | Star regex
  | Group regex

fun item_ok :: "bool \<Rightarrow> citem \<Rightarrow> char \<Rightarrow> bool" where
  "item_ok ic (Lit a) c = (if ic then char_lower c = char_lower a else c = a)"
| "item_ok ic Digit c = isdigit c"
| "item_ok ic Space c = isspace c"
| "item_ok ic (Range lo hi) c =
     (let inr = (\<lambda>x. (of_char lo :: nat) \<le> of_char x \<and> (of_char x :: nat) \<le> of_char hi)
      in inr c \<or> (ic \<and> (inr (char_lower c) \<or> inr (char_upper c))))"

type_synonym caps = "(string \<times> string) option"

fun re_m :: "bool \<Rightarrow> regex \<Rightarrow> string \<Rightarrow> caps \<Rightarrow> (string \<Rightarrow> caps \<Rightarrow> (string \<times> caps) option)
              \<Rightarrow> (string \<times> caps) option" where
  "re_m ic Eps s c k = k s c"
| "re_m ic (Chr a) s c k =
     (case s of [] \<Rightarrow> None | x # xs \<Rightarrow> if item_ok ic a x then k xs c else None)"
| "re_m ic (Cls items) s c k =
     (case s of [] \<Rightarrow> None
      | x # xs \<Rightarrow> if list_ex (\<lambda>a. item_ok ic a x) items then k xs c else None)"
| "re_m ic (Seq a b) s c k = re_m ic a s c (\<lambda>s' c'. re_m ic b s' c' k)"
| "re_m ic (Alt a b) s c k =
     (case re_m ic a s c k of Some r \<Rightarrow> Some r | None \<Rightarrow> re_m ic b s c k)"
| "re_m ic (Opt a) s c k =
     (case re_m ic a s c k of Some r \<Rightarrow> Some r | None \<Rightarrow> k s c)"
| "re_m ic (Star a) s c k =
     (case re_m ic a s c
             (\<lambda>s' c'. if length s' < length s then re_m ic (Star a) s' c' k else None)
      of Some r \<Rightarrow> Some r | None \<Rightarrow> k s c)"
| "re_m ic (Group a) s c k = re_m ic a s c (\<lambda>s' c'. k s' (Some (s, s')))"

record match =
  group0 :: string
  group1 :: "string option"

definition match_here :: "bool \<Rightarrow> regex \<Rightarrow> string \<Rightarrow> match option" where
  "match_here ic r s =
     (case re_m ic r s None (\<lambda>s' c. Some (s', c)) of
        None \<Rightarrow> None
      | Some (s', c) \<Rightarrow>
          Some \<lparr> group0 = take (length s - length s') s,
                 group1 = map_option (\<lambda>(a, b). take (length a - length b) a) c \<rparr>)"

fun re_search :: "bool \<Rightarrow> regex \<Rightarrow> string \<Rightarrow> match option" where
  \<comment> \<open>\<open>re.search\<close>: the match at the leftmost position that has one; the flag is IGNORECASE\<close>
  "re_search ic r [] = match_here ic r []"
| "re_search ic r (x # xs) =
     (case match_here ic r (x # xs) of Some m \<Rightarrow> Some m | None \<Rightarrow> re_search ic r xs)"

fun lit :: "string \<Rightarrow> regex" where
  "lit [] = Eps"
| "lit [c] = Chr (Lit c)"
| "lit (c # cs) = Seq (Chr (Lit c)) (lit cs)"

fun seqs :: "regex list \<Rightarrow> regex" where
  "seqs [] = Eps"
| "seqs [r] = r"
| "seqs (r # rs) = Seq r (seqs rs)"

definition many1 :: "regex \<Rightarrow> regex" where
  \<comment> \<open>\<open>r+\<close>\<close>
  "many1 r = Seq r (Star r)"

fun rep :: "nat \<Rightarrow> regex \<Rightarrow> regex" where
  \<comment> \<open>\<open>r{n}\<close>\<close>
  "rep 0 r = Eps"
| "rep (Suc n) r = Seq r (rep n r)"

fun rep_upto :: "nat \<Rightarrow> regex \<Rightarrow> regex" where
  \<comment> \<open>\<open>r{0,n}\<close>, greedy\<close>
  "rep_upto 0 r = Eps"
| "rep_upto (Suc n) r = Opt (Seq r (rep_upto n r))"

definition rep_range :: "nat \<Rightarrow> nat \<Rightarrow> regex \<Rightarrow> regex" where
  \<comment> \<open>\<open>r{lo,hi}\<close>, greedy\<close>
  "rep_range lo hi r = Seq (rep lo r) (rep_upto (hi - lo) r)"

section \<open>Field extraction (app.py)\<close>

definition d :: regex where
  "d = Chr Digit"

definition TXID_RE :: regex where
  \<comment> \<open>\<open>TxId[:\s]*([\d]+)\<close>\<close>
  "TXID_RE = seqs [lit ''TxId'', Star (Cls [Lit CHR '':'', Space]), Group (many1 (Cls [Digit]))]"

definition TXID_FALLBACK_RE :: regex where
  \<comment> \<open>\<open>\*161\*TxId:([\d]+)\*R\*\<close>\<close>
  "TXID_FALLBACK_RE = seqs [lit ''*161*TxId:'', Group (many1 (Cls [Digit])), lit ''*R*'']"

definition AMOUNT_RE :: regex where
  \<comment> \<open>\<open>(\d{1,3}(?:,\d{3})*|\d+)\s*RWF\<close>\<close>
  "AMOUNT_RE =
     seqs [Group (Alt (Seq (rep_range 1 3 d) (Star (Seq (Chr (Lit CHR '','')) (rep 3 d))))
                      (many1 d)),
           Star (Chr Space), lit ''RWF'']"

definition SENDER_RE :: regex where
  \<comment> \<open>\<open>from ([A-Za-z ]+) \(\<close>\<close>
  "SENDER_RE =
     seqs [lit ''from '',
           Group (many1 (Cls [Range CHR ''A'' CHR ''Z'', Range CHR ''a'' CHR ''z'', Lit CHR '' ''])),
           lit '' ('']"

definition TIMESTAMP_RE :: regex where
  \<comment> \<open>\<open>at (\d{4}-\d{2}-\d{2} \d{2}:\d{2}:\d{2})\<close>\<close>
  "TIMESTAMP_RE =
     seqs [lit ''at '',
           Group (seqs [rep 4 d, lit ''-'', rep 2 d, lit ''-'', rep 2 d, lit '' '',
                        rep 2 d, lit '':'', rep 2 d, lit '':'', rep 2 d])]"

definition group1_or_empty :: "match \<Rightarrow> string" where
  \<comment> \<open>\<open>m.group(1)\<close>; every pattern here has its group on every path\<close>
  "group1_or_empty m = (case group1 m of None \<Rightarrow> [] | Some g \<Rightarrow> g)"

record fields =
  raw_text :: string
  txid :: string
  amount :: string
  sender_name :: string
  timestamp :: "string option"

definition extract_fields :: "string \<Rightarrow> fields" where
  "extract_fields text =
     (let txid_match = (case re_search False TXID_RE text of
                          None \<Rightarrow> re_search False TXID_FALLBACK_RE text
                        | Some m \<Rightarrow> Some m);
          txid = (case txid_match of None \<Rightarrow> [] | Some m \<Rightarrow> group1_or_empty m);
          amount = (case re_search False AMOUNT_RE text of None \<Rightarrow> [] | Some m \<Rightarrow> group0 m);
          sender_name = (case re_search False SENDER_RE text of
                           None \<Rightarrow> [] | Some m \<Rightarrow> py_strip (group1_or_empty m));
          timestamp = (case re_search False TIMESTAMP_RE text of
                         None \<Rightarrow> [] | Some m \<Rightarrow> group1_or_empty m)
      in \<lparr> raw_text = text, txid = txid, amount = amount, sender_name = sender_name,
           timestamp = (if timestamp = [] then None else Some timestamp) \<rparr>)"

section \<open>The classifier (ml_classifier.py)\<close>

definition payment_success_keywords :: "string list" where
  "payment_success_keywords =
     [''received'', ''sent'', ''paid'', ''successful'', ''completed'',
      ''confirmed'', ''approved'', ''transaction'', ''transfer'']"

definition payment_failure_keywords :: "string list" where
  "payment_failure_keywords =
     [''failed'', ''declined'', ''insufficient'', ''pending'',
      ''cancelled'', ''error'', ''rejected'']"

definition momo_patterns :: "regex list" where
  "momo_patterns =
     [seqs [lit ''*161*TxId:'', many1 d, lit ''*R*''],
      seqs [lit ''You have received '', many1 d, lit '' RWF''],
      seqs [lit ''You have sent '', many1 d, lit '' RWF'']]"

definition ML_TXID_RE :: regex where
  \<comment> \<open>\<open>TxId[:\s]*(\d+)\<close>, searched with IGNORECASE\<close>
  "ML_TXID_RE = seqs [lit ''TxId'', Star (Cls [Lit CHR '':'', Space]), Group (many1 d)]"

definition ML_SENDER_RE :: regex where
  \<comment> \<open>\<open>from ([A-Za-z\s]+)\s*\(\<close>\<close>
  "ML_SENDER_RE =
     seqs [lit ''from '',
           Group (many1 (Cls [Range CHR ''A'' CHR ''Z'', Range CHR ''a'' CHR ''z'', Space])),
           Star (Chr Space), lit ''('']"

definition PHONE_RE :: regex where
  \<comment> \<open>\<open>\(\*+(\d{2,3})\)\<close>\<close>
  "PHONE_RE = seqs [lit ''('', many1 (Chr (Lit CHR ''*'')), Group (rep_range 2 3 d), lit '')'']"

definition keyword_hits :: "string list \<Rightarrow> string \<Rightarrow> nat" where
  \<comment> \<open>\<open>sum(1 for keyword in keywords if keyword in text_lower)\<close>\<close>
  "keyword_hits keywords text_lower = length (filter (\<lambda>keyword. py_in keyword text_lower) keywords)"

definition momo_hit :: "string \<Rightarrow> bool" where
  \<comment> \<open>the loop over \<open>momo_patterns\<close>: some pattern is found, ignoring case\<close>
  "momo_hit sms_text = list_ex (\<lambda>pattern. re_search True pattern sms_text \<noteq> None) momo_patterns"

definition is_payment_related :: "string \<Rightarrow> bool" where
  "is_payment_related sms_text =
     (let text_lower = py_lower sms_text
      in if momo_hit sms_text then True
         else (let success_score = keyword_hits payment_success_keywords text_lower;
                   failure_score = keyword_hits payment_failure_keywords text_lower
               in success_score > 0 \<or> failure_score > 0))"

record payment_info =
  info_txid :: string
  info_amount :: string
  info_sender_name :: string
  phone_digits :: string
  is_payment_sms :: bool

definition extract_payment_info :: "string \<Rightarrow> payment_info" where
  "extract_payment_info sms_text =
     (let info = \<lparr> info_txid = [], info_amount = [], info_sender_name = [],
                   phone_digits = [], is_payment_sms = False \<rparr>;
          info = info \<lparr> is_payment_sms := is_payment_related sms_text \<rparr>
      in if \<not> is_payment_sms info then info
         else
          (let info = (case re_search True ML_TXID_RE sms_text of
                         None \<Rightarrow> info | Some m \<Rightarrow> info \<lparr> info_txid := group1_or_empty m \<rparr>);
               info = (case re_search False AMOUNT_RE sms_text of
                         None \<Rightarrow> info | Some m \<Rightarrow> info \<lparr> info_amount := group1_or_empty m \<rparr>);
               info = (case re_search False ML_SENDER_RE sms_text of
                         None \<Rightarrow> info
                       | Some m \<Rightarrow> info \<lparr> info_sender_name := py_strip (group1_or_empty m) \<rparr>);
               info = (case re_search False PHONE_RE sms_text of
                         None \<Rightarrow> info | Some m \<Rightarrow> info \<lparr> phone_digits := group1_or_empty m \<rparr>)
           in info))"

datatype payment_status = Success | Failed | Unknown

definition classify_payment_status :: "string \<Rightarrow> payment_status" where
  "classify_payment_status sms_text =
     (if \<not> is_payment_related sms_text then Unknown
      else (let text_lower = py_lower sms_text
            in if list_ex (\<lambda>keyword. py_in keyword text_lower) payment_failure_keywords then Failed
               else if list_ex (\<lambda>keyword. py_in keyword text_lower) payment_success_keywords
               then Success
               else Unknown))"

text \<open>
  The score is a Python float. It is modelled by the exact rational: sums and products
  of the constants 0.7, 0.3, 0.1 and 1.0 with a hit count.
\<close>

definition get_confidence_score :: "string \<Rightarrow> rat" where
  "get_confidence_score sms_text =
     (if py_strip sms_text = [] then 0
      else (let text_lower = py_lower sms_text;
                total_score = (if momo_hit sms_text then 7 / 10 else 0);
                success_matches = keyword_hits payment_success_keywords text_lower;
                failure_matches = keyword_hits payment_failure_keywords text_lower;
                total_score = total_score
                  + min (3 / 10) (of_nat (success_matches + failure_matches) * (1 / 10))
            in min 1 total_score))"

record classification =
  payment_info :: payment_info
  status :: payment_status
  confidence :: rat
  cls_is_payment_sms :: bool

definition classify_sms :: "string \<Rightarrow> classification" where
  "classify_sms sms_text =
     (let payment_info = extract_payment_info sms_text;
          status = classify_payment_status sms_text;
          confidence = get_confidence_score sms_text
      in \<lparr> payment_info = payment_info, status = status, confidence = confidence,
           cls_is_payment_sms = is_payment_sms payment_info \<rparr>)"

section \<open>Payment verification (payment_verification.py)\<close>

text \<open>
  The store is an external service. A row of the \<open>Messages\<close> table is a dictionary
  from column names to JSON values; a call to the service either returns or raises.
\<close>

datatype pyval = PyNone | PyStr string | PyInt int

type_synonym row = "string \<rightharpoonup> pyval"

datatype pyexc = AttributeError | TypeError | StoreError

record payment_record =
  p_txid :: string
  client_name :: string
  client_phone :: string
  verified_amount :: int
  verification_status :: string
  created_at :: string

record store =
  messages :: "row list"
  payments :: "payment_record list"
  select_ok :: bool
  insert_ok :: bool

definition select_txid :: "store \<Rightarrow> string \<Rightarrow> pyexc + row list" where
  \<comment> \<open>\<open>supabase.table(TABLE_NAME).select('*').eq('txid', txid).execute().data\<close>\<close>
  "select_txid st t =
     (if select_ok st then Inr (filter (\<lambda>r. r ''txid'' = Some (PyStr t)) (messages st))
      else Inl StoreError)"

definition insert_payment :: "store \<Rightarrow> payment_record \<Rightarrow> pyexc + store" where
  \<comment> \<open>\<open>supabase.table("payments").insert(payment_record).execute()\<close>\<close>
  "insert_payment st p =
     (if insert_ok st then Inr (st \<lparr> payments := payments st @ [p] \<rparr>) else Inl StoreError)"

definition row_get :: "row \<Rightarrow> string \<Rightarrow> pyval \<Rightarrow> pyval" where
  \<comment> \<open>\<open>transaction.get(key, default)\<close>\<close>
  "row_get r key dflt = (case r key of None \<Rightarrow> dflt | Some v \<Rightarrow> v)"

definition truthy :: "pyval \<Rightarrow> bool" where
  "truthy v = (case v of PyNone \<Rightarrow> False | PyStr s \<Rightarrow> s \<noteq> [] | PyInt n \<Rightarrow> n \<noteq> 0)"

datatype vstatus = Approved | NotApproved | Error

record outcome =
  v_status :: vstatus
  message :: string
  v_amount :: "int option"

definition REQUIRED_AMOUNT :: int where
  "REQUIRED_AMOUNT = 100"

definition amount_str_of :: "string \<Rightarrow> string" where
  \<comment> \<open>\<open>.replace(' RWF', '').replace(',', '').strip()\<close>\<close>
  "amount_str_of a = py_strip (py_replace '','' [] (py_replace '' RWF'' [] a))"

definition verify_payment :: "store \<Rightarrow> string \<Rightarrow> int \<Rightarrow> pyexc + outcome" where
  "verify_payment st t required_amount =
     (case select_txid st t of
        Inl e \<Rightarrow> Inl e
      | Inr [] \<Rightarrow> Inr \<lparr> v_status = NotApproved, message = ''Payment is not approved.'',
                        v_amount = None \<rparr>
      | Inr (transaction # _) \<Rightarrow>
         (case row_get transaction ''amount'' (PyStr []) of
            PyStr a \<Rightarrow>
             (case py_int (amount_str_of a) of
                None \<Rightarrow> Inr \<lparr> v_status = NotApproved,
                               message = ''Payment is not approved (invalid amount format).'',
                               v_amount = None \<rparr>
              | Some paid_amount \<Rightarrow>
                 if paid_amount = required_amount
                 then Inr \<lparr> v_status = Approved, message = ''Payment is approved.'',
                            v_amount = None \<rparr>
                 else if paid_amount < required_amount
                 then (let shortage = required_amount - paid_amount
                       in Inr \<lparr> v_status = NotApproved,
                                 message = ''Payment is not approved. You are short by ''
                                           @ py_str shortage @ '' RWF.'',
                                 v_amount = None \<rparr>)
                 else Inr \<lparr> v_status = Approved, message = ''Payment is approved.'',
                            v_amount = None \<rparr>)
          | _ \<Rightarrow> Inl AttributeError))"

definition verify_payment_with_client_details ::
  "store \<Rightarrow> string \<Rightarrow> string \<Rightarrow> string \<Rightarrow> string \<Rightarrow> int \<Rightarrow> (pyexc + outcome) \<times> store" where
  \<comment> \<open>\<open>now\<close> is what \<open>datetime.now().isoformat()\<close> returns\<close>
  "verify_payment_with_client_details st now t cname cphone required_amount =
     (case select_txid st t of
        Inl e \<Rightarrow> (Inl e, st)
      | Inr [] \<Rightarrow> (Inr \<lparr> v_status = NotApproved,
                         message = ''Payment not found. Please check your TxID.'',
                         v_amount = None \<rparr>, st)
      | Inr (transaction # _) \<Rightarrow>
         (case row_get transaction ''amount'' (PyStr []) of
            PyStr a \<Rightarrow>
             (case py_int (amount_str_of a) of
                None \<Rightarrow> (Inr \<lparr> v_status = NotApproved,
                                message = ''Invalid payment amount format.'',
                                v_amount = None \<rparr>, st)
              | Some paid_amount \<Rightarrow>
                 if paid_amount < required_amount
                 then (let shortage = required_amount - paid_amount
                       in (Inr \<lparr> v_status = NotApproved,
                                  message = ''Insufficient payment. You are short by ''
                                            @ py_str shortage @ '' RWF.'',
                                  v_amount = None \<rparr>, st))
                 else
                  (case row_get transaction ''sender_name'' (PyStr []) of
                     PyStr sn \<Rightarrow>
                      (let sms_sender_name = py_strip (py_lower sn);
                           client_name_lower = py_strip (py_lower cname)
                       in if sms_sender_name = []
                             \<or> (\<not> py_in client_name_lower sms_sender_name
                                 \<and> \<not> py_in sms_sender_name client_name_lower)
                          then (Inr \<lparr> v_status = NotApproved,
                                  message = ''Name verification failed. Please ensure you entered the correct name.'',
                                  v_amount = None \<rparr>, st)
                          else
                           (let client_last_digits =
                                  last_n 3 (py_replace ''-'' [] (py_replace '' '' []
                                              (py_replace ''+'' [] cphone)));
                                sms_phone_digits = row_get transaction ''sender_phone_digits'' (PyStr [])
                            in case (if truthy sms_phone_digits
                                     then (case sms_phone_digits of
                                             PyStr pd \<Rightarrow> Inr (endswith client_last_digits (last_n 2 pd))
                                           | _ \<Rightarrow> Inl TypeError)
                                     else Inr True) of
                                 Inl e \<Rightarrow> (Inl e, st)
                               | Inr False \<Rightarrow>
                                  (Inr \<lparr> v_status = NotApproved,
                                     message = ''Phone number verification failed. Please check your mobile number.'',
                                     v_amount = None \<rparr>, st)
                               | Inr True \<Rightarrow>
                                  (let payment_record =
                                         \<lparr> p_txid = t, client_name = cname, client_phone = cphone,
                                           verified_amount = paid_amount,
                                           verification_status = ''approved'',
                                           created_at = now \<rparr>
                                   in case insert_payment st payment_record of
                                        Inr st' \<Rightarrow>
                                         (Inr \<lparr> v_status = Approved,
                                            message = ''Payment verified successfully! Amount received: ''
                                                      @ py_str paid_amount @ '' RWF'',
                                            v_amount = Some paid_amount \<rparr>, st')
                                      | Inl e \<Rightarrow>
                                         (Inr \<lparr> v_status = Error,
                                            message = ''Failed to record payment verification.'',
                                            v_amount = None \<rparr>, st))))
                   | _ \<Rightarrow> (Inl AttributeError, st)))
          | _ \<Rightarrow> (Inl AttributeError, st)))"

section \<open>Example stores\<close>

definition example_row :: "string \<Rightarrow> string \<Rightarrow> string \<Rightarrow> string \<Rightarrow> row" where
  "example_row t a n pd =
     [''txid'' \<mapsto> PyStr t, ''amount'' \<mapsto> PyStr a, ''sender_name'' \<mapsto> PyStr n,
      ''sender_phone_digits'' \<mapsto> PyStr pd]"

definition example_store :: "row \<Rightarrow> bool \<Rightarrow> store" where
  \<comment> \<open>a reachable store holding one message; the flag says whether inserts succeed\<close>
  "example_store r ok = \<lparr> messages = [r], payments = [], select_ok = True, insert_ok = ok \<rparr>"

section \<open>Facts about the string functions and the matcher\<close>












lemma py_in_empty: "py_in [] s"
  by (cases s) auto

lemma example_select:
  "select_txid (example_store (example_row t a n pd) ok) t = Inr (example_row t a n pd # [])"
  by (simp add: select_txid_def example_store_def example_row_def)

lemma example_amount: "example_row t a n pd ''amount'' = Some (PyStr a)"
  by (simp add: example_row_def)

lemma example_sender: "row_get (example_row t a n pd) ''sender_name'' (PyStr []) = PyStr n"
  by (simp add: example_row_def row_get_def)

lemma example_phone: "row_get (example_row t a n pd) ''sender_phone_digits'' (PyStr []) = PyStr pd"
  by (simp add: example_row_def row_get_def)

lemma amount_150: "py_int (amount_str_of ''150 RWF'') = Some 150"
  by code_simp

section \<open>Claims about the classifier\<close>

text \<open>
  Claim C6. Whenever \<open>classify_sms\<close> assigns the status success or failed, the message
  is flagged payment-related. The converse fails: the text \<open>*161*TxId:1*R*\<close> passes the
  gate through the first format pattern, holds no keyword of either list, and gets the
  status unknown.
\<close>

theorem status_implies_related:
  "(\<forall>s. status (classify_sms s) \<noteq> Unknown \<longrightarrow> cls_is_payment_sms (classify_sms s))
   \<and> cls_is_payment_sms (classify_sms ''*161*TxId:1*R*'')
   \<and> status (classify_sms ''*161*TxId:1*R*'') = Unknown
   \<and> keyword_hits payment_success_keywords (py_lower ''*161*TxId:1*R*'') = 0
   \<and> keyword_hits payment_failure_keywords (py_lower ''*161*TxId:1*R*'') = 0"
proof -
  have g: "\<forall>s. status (classify_sms s) \<noteq> Unknown \<longrightarrow> cls_is_payment_sms (classify_sms s)"
    by (simp add: classify_sms_def classify_payment_status_def extract_payment_info_def Let_def
             split: option.splits)
  have a: "cls_is_payment_sms (classify_sms ''*161*TxId:1*R*'')" by code_simp
  have b: "status (classify_sms ''*161*TxId:1*R*'') = Unknown" by code_simp
  have c: "keyword_hits payment_success_keywords (py_lower ''*161*TxId:1*R*'') = 0" by code_simp
  have d: "keyword_hits payment_failure_keywords (py_lower ''*161*TxId:1*R*'') = 0" by code_simp
  show ?thesis using g a b c d by blast
qed

theorem status_implies_related_witness:
  "status (classify_sms ''payment failed'') = Failed
   \<and> cls_is_payment_sms (classify_sms ''payment failed'')"
proof -
  have a: "status (classify_sms ''payment failed'') = Failed" by code_simp
  then have "status (classify_sms ''payment failed'') \<noteq> Unknown" by simp
  then show ?thesis using a status_implies_related by blast
qed



text \<open>
  Claim C10. On a text that is not payment-related, \<open>extract_payment_info\<close> returns the
  empty string for txid, amount, sender name and phone digits, and False for
  \<open>is_payment_sms\<close>. The text \<open>TxId:12345 5,000 RWF\<close> is such a text although both the
  TxId pattern and the amount pattern match it.
\<close>

theorem extraction_gated_on_relatedness:
  "(\<forall>s. \<not> is_payment_related s \<longrightarrow>
        extract_payment_info s = \<lparr> info_txid = [], info_amount = [], info_sender_name = [],
                                    phone_digits = [], is_payment_sms = False \<rparr>)
   \<and> \<not> is_payment_related ''TxId:12345 5,000 RWF''
   \<and> re_search True ML_TXID_RE ''TxId:12345 5,000 RWF''
       = Some \<lparr> group0 = ''TxId:12345'', group1 = Some ''12345'' \<rparr>
   \<and> re_search False AMOUNT_RE ''TxId:12345 5,000 RWF''
       = Some \<lparr> group0 = ''5,000 RWF'', group1 = Some ''5,000'' \<rparr>"
proof -
  have g: "\<forall>s. \<not> is_payment_related s \<longrightarrow>
        extract_payment_info s = \<lparr> info_txid = [], info_amount = [], info_sender_name = [],
                                    phone_digits = [], is_payment_sms = False \<rparr>"
    by (simp add: extract_payment_info_def Let_def)
  have a: "\<not> is_payment_related ''TxId:12345 5,000 RWF''" by code_simp
  have b: "re_search True ML_TXID_RE ''TxId:12345 5,000 RWF''
       = Some \<lparr> group0 = ''TxId:12345'', group1 = Some ''12345'' \<rparr>" by code_simp
  have c: "re_search False AMOUNT_RE ''TxId:12345 5,000 RWF''
       = Some \<lparr> group0 = ''5,000 RWF'', group1 = Some ''5,000'' \<rparr>" by code_simp
  show ?thesis using g a b c by blast
qed

theorem extraction_gated_on_relatedness_witness:
  "\<not> is_payment_related ''TxId:12345 5,000 RWF''
   \<and> extract_payment_info ''TxId:12345 5,000 RWF''
       = \<lparr> info_txid = [], info_amount = [], info_sender_name = [],
           phone_digits = [], is_payment_sms = False \<rparr>"
  using extraction_gated_on_relatedness by blast

section \<open>Claims about payment verification\<close>

text \<open>
  Claim C1. When the lookup returns a record whose amount field parses as an integer
  after the currency suffix and the thousands separators are removed, \<open>verify_payment\<close>
  approves a paid amount equal to the required amount, rejects a smaller one with a
  message that reports the shortage \<open>required_amount - paid_amount\<close>, and approves a
  larger one.
\<close>

theorem verify_payment_amount_rule:
  assumes "select_txid st t = Inr (transaction # rest)"
      and "transaction ''amount'' = Some (PyStr a)"
      and "py_int (amount_str_of a) = Some paid_amount"
  shows "(paid_amount = required_amount \<longrightarrow>
            verify_payment st t required_amount
              = Inr \<lparr> v_status = Approved, message = ''Payment is approved.'', v_amount = None \<rparr>)
       \<and> (paid_amount < required_amount \<longrightarrow>
            verify_payment st t required_amount
              = Inr \<lparr> v_status = NotApproved,
                       message = ''Payment is not approved. You are short by ''
                                 @ py_str (required_amount - paid_amount) @ '' RWF.'',
                       v_amount = None \<rparr>)
       \<and> (paid_amount > required_amount \<longrightarrow>
            verify_payment st t required_amount
              = Inr \<lparr> v_status = Approved, message = ''Payment is approved.'', v_amount = None \<rparr>)"
  using assms by (simp add: verify_payment_def row_get_def Let_def)

theorem verify_payment_amount_rule_witness:
  "verify_payment (example_store (example_row ''TX1'' ''100 RWF'' ''jane'' ''56'') True) ''TX1'' 100
     = Inr \<lparr> v_status = Approved, message = ''Payment is approved.'', v_amount = None \<rparr>
   \<and> verify_payment (example_store (example_row ''TX1'' ''80 RWF'' ''jane'' ''56'') True) ''TX1'' 100
     = Inr \<lparr> v_status = NotApproved,
              message = ''Payment is not approved. You are short by 20 RWF.'', v_amount = None \<rparr>
   \<and> verify_payment (example_store (example_row ''TX1'' ''1,500 RWF'' ''jane'' ''56'') True) ''TX1'' 100
     = Inr \<lparr> v_status = Approved, message = ''Payment is approved.'', v_amount = None \<rparr>"
proof -
  have p1: "py_int (amount_str_of ''100 RWF'') = Some 100" by code_simp
  have p2: "py_int (amount_str_of ''80 RWF'') = Some 80" by code_simp
  have p3: "py_int (amount_str_of ''1,500 RWF'') = Some 1500" by code_simp
  have m: "py_str (100 - 80) = ''20''" by code_simp
  show ?thesis
    using verify_payment_amount_rule [OF example_select example_amount p1, of 100]
          verify_payment_amount_rule [OF example_select example_amount p2, of 100]
          verify_payment_amount_rule [OF example_select example_amount p3, of 100] m
    by simp
qed

text \<open>
  Claim C2. In \<open>verify_payment_with_client_details\<close> the amount rule rejects, with the
  shortage message, only a paid amount strictly below the required amount. Any other
  amount, an overpayment included, goes on to the name rule, then the phone rule, then the
  insert of the audit record. The call for \<open>TX2\<close>, \<open>John Smith\<close>, \<open>+250788123456\<close> and
  100 against a record with amount \<open>150 RWF\<close>, sender \<open>john smith\<close> and digits \<open>56\<close> is
  approved with amount 150.
\<close>

theorem with_client_details_overpayment:
  assumes "select_txid st t = Inr (transaction # rest)"
      and "transaction ''amount'' = Some (PyStr a)"
      and "py_int (amount_str_of a) = Some paid_amount"
      and "row_get transaction ''sender_name'' (PyStr []) = PyStr sn"
      and "row_get transaction ''sender_phone_digits'' (PyStr []) = PyStr pd"
  shows "fst (verify_payment_with_client_details st now t cname cphone required_amount) =
     (if paid_amount < required_amount
      then Inr \<lparr> v_status = NotApproved,
                 message = ''Insufficient payment. You are short by ''
                           @ py_str (required_amount - paid_amount) @ '' RWF.'',
                 v_amount = None \<rparr>
      else if py_strip (py_lower sn) = []
              \<or> (\<not> py_in (py_strip (py_lower cname)) (py_strip (py_lower sn))
                  \<and> \<not> py_in (py_strip (py_lower sn)) (py_strip (py_lower cname)))
      then Inr \<lparr> v_status = NotApproved,
                 message = ''Name verification failed. Please ensure you entered the correct name.'',
                 v_amount = None \<rparr>
      else if pd \<noteq> []
              \<and> \<not> endswith (last_n 3 (py_replace ''-'' [] (py_replace '' '' []
                                         (py_replace ''+'' [] cphone)))) (last_n 2 pd)
      then Inr \<lparr> v_status = NotApproved,
                 message = ''Phone number verification failed. Please check your mobile number.'',
                 v_amount = None \<rparr>
      else if insert_ok st
      then Inr \<lparr> v_status = Approved,
                 message = ''Payment verified successfully! Amount received: ''
                           @ py_str paid_amount @ '' RWF'',
                 v_amount = Some paid_amount \<rparr>
      else Inr \<lparr> v_status = Error, message = ''Failed to record payment verification.'',
                 v_amount = None \<rparr>)
    \<and> fst (verify_payment_with_client_details
             (example_store (example_row ''TX2'' ''150 RWF'' ''john smith'' ''56'') True)
             ''2024-01-01T10:00:00'' ''TX2'' ''John Smith'' ''+250788123456'' 100)
        = Inr \<lparr> v_status = Approved,
                 message = ''Payment verified successfully! Amount received: 150 RWF'',
                 v_amount = Some 150 \<rparr>"
    (is "?general \<and> ?example")
proof (rule conjI)
  show ?general
    using assms
    by (simp add: verify_payment_with_client_details_def row_get_def Let_def truthy_def
                  insert_payment_def)
  show ?example
    by code_simp
qed

theorem with_client_details_overpayment_witness:
  "fst (verify_payment_with_client_details
          (example_store (example_row ''TX2'' ''150 RWF'' ''Alice'' ''56'') True)
          ''2024-01-01T10:00:00'' ''TX2'' ''John Smith'' ''+250788123456'' 100)
     = Inr \<lparr> v_status = NotApproved,
              message = ''Name verification failed. Please ensure you entered the correct name.'',
              v_amount = None \<rparr>"
proof -
  have a: "\<not> py_in (py_strip (py_lower ''John Smith'')) (py_strip (py_lower ''Alice''))"
    by code_simp
  have b: "\<not> py_in (py_strip (py_lower ''Alice'')) (py_strip (py_lower ''John Smith''))"
    by code_simp
  show ?thesis
    using with_client_details_overpayment
            [OF example_select example_amount amount_150 example_sender example_phone,
             of "''TX2''" "''Alice''" "''56''" True "''2024-01-01T10:00:00''" "''John Smith''"
                "''+250788123456''" 100] a b
    by simp
qed

text \<open>
  Claim C3, amended. Once the amount rule has passed, the call returns the
  name-verification failure exactly when the name rule does not pass, and the name rule
  passes exactly when the stored sender name is non-empty after lowercasing and trimming
  and one of the two lowercased, trimmed names contains the other. Nothing is assumed
  about the stored phone digits: the failure is returned before the phone rule is looked
  at.
\<close>

theorem name_rule_exact:
  assumes "select_txid st t = Inr (transaction # rest)"
      and "transaction ''amount'' = Some (PyStr a)"
      and "py_int (amount_str_of a) = Some paid_amount"
      and "required_amount \<le> paid_amount"
      and "row_get transaction ''sender_name'' (PyStr []) = PyStr sn"
  shows "(fst (verify_payment_with_client_details st now t cname cphone required_amount)
            = Inr \<lparr> v_status = NotApproved,
                     message = ''Name verification failed. Please ensure you entered the correct name.'',
                     v_amount = None \<rparr>)
         \<longleftrightarrow> \<not> (py_strip (py_lower sn) \<noteq> []
                \<and> (py_in (py_strip (py_lower cname)) (py_strip (py_lower sn))
                    \<or> py_in (py_strip (py_lower sn)) (py_strip (py_lower cname))))"
  using assms
  by (auto simp: verify_payment_with_client_details_def row_get_def Let_def
                 insert_payment_def
           split: option.splits pyval.splits sum.splits bool.splits if_splits)

theorem name_rule_exact_witness:
  "fst (verify_payment_with_client_details
          (example_store (example_row ''TX2'' ''150 RWF'' ''Alice'' ''56'') True)
          ''2024-01-01T10:00:00'' ''TX2'' ''John Smith'' ''+250788123456'' 100)
     = Inr \<lparr> v_status = NotApproved,
              message = ''Name verification failed. Please ensure you entered the correct name.'',
              v_amount = None \<rparr>
   \<and> \<not> py_in (py_strip (py_lower ''John Smith'')) (py_strip (py_lower ''Alice''))
   \<and> \<not> py_in (py_strip (py_lower ''Alice'')) (py_strip (py_lower ''John Smith''))"
proof -
  have s: "select_txid (example_store (example_row ''TX2'' ''150 RWF'' ''Alice'' ''56'') True) ''TX2''
             = Inr (example_row ''TX2'' ''150 RWF'' ''Alice'' ''56'' # [])"
    by (simp add: select_txid_def example_store_def example_row_def)
  have r: "example_row ''TX2'' ''150 RWF'' ''Alice'' ''56'' ''amount'' = Some (PyStr ''150 RWF'')"
    by (simp add: example_row_def)
  have p: "py_int (amount_str_of ''150 RWF'') = Some 150" by code_simp
  have l: "(100::int) \<le> 150" by simp
  have n: "row_get (example_row ''TX2'' ''150 RWF'' ''Alice'' ''56'') ''sender_name'' (PyStr [])
             = PyStr ''Alice''"
    by (simp add: example_row_def row_get_def)
  have a: "\<not> py_in (py_strip (py_lower ''John Smith'')) (py_strip (py_lower ''Alice''))"
    by code_simp
  have b: "\<not> py_in (py_strip (py_lower ''Alice'')) (py_strip (py_lower ''John Smith''))"
    by code_simp
  show ?thesis
    using name_rule_exact [OF s r p l n, of "''2024-01-01T10:00:00''" "''John Smith''"
                                         "''+250788123456''"] a b
    by simp
qed

text \<open>
  Claim C3 as first stated asks only that the stored sender name be non-empty. The
  stored name of two spaces is non-empty and, once trimmed, is contained in every claimed
  name, yet the name rule rejects it.
\<close>

theorem name_rule_counterexample:
  "''  '' \<noteq> []
   \<and> (py_in (py_strip (py_lower ''bob'')) (py_strip (py_lower ''  ''))
      \<or> py_in (py_strip (py_lower ''  '')) (py_strip (py_lower ''bob'')))
   \<and> fst (verify_payment_with_client_details
             (example_store (example_row ''TX2'' ''150 RWF'' ''  '' ''56'') True)
             ''2024-01-01T10:00:00'' ''TX2'' ''bob'' ''+250788123456'' 100)
       = Inr \<lparr> v_status = NotApproved,
                message = ''Name verification failed. Please ensure you entered the correct name.'',
                v_amount = None \<rparr>"
  by code_simp

text \<open>
  Claim C4. When the amount, name and phone rules all pass, a failing insert of the audit
  record gives the outcome with status error and a fixed message, as a returned value and
  with the store unchanged; a successful insert gives the approved outcome whose message
  and amount field carry the parsed paid amount.
\<close>

theorem insert_failure_is_error_outcome:
  assumes "select_txid st t = Inr (transaction # rest)"
      and "transaction ''amount'' = Some (PyStr a)"
      and "py_int (amount_str_of a) = Some paid_amount"
      and "required_amount \<le> paid_amount"
      and "row_get transaction ''sender_name'' (PyStr []) = PyStr sn"
      and "py_strip (py_lower sn) \<noteq> []"
      and "py_in (py_strip (py_lower cname)) (py_strip (py_lower sn))
           \<or> py_in (py_strip (py_lower sn)) (py_strip (py_lower cname))"
      and "\<not> truthy (row_get transaction ''sender_phone_digits'' (PyStr []))
           \<or> (\<exists>pd. row_get transaction ''sender_phone_digits'' (PyStr []) = PyStr pd
                  \<and> endswith (last_n 3 (py_replace ''-'' [] (py_replace '' '' []
                                           (py_replace ''+'' [] cphone)))) (last_n 2 pd))"
  shows "(\<forall>e. insert_payment st \<lparr> p_txid = t, client_name = cname, client_phone = cphone,
                                   verified_amount = paid_amount,
                                   verification_status = ''approved'', created_at = now \<rparr> = Inl e
            \<longrightarrow> verify_payment_with_client_details st now t cname cphone required_amount
                 = (Inr \<lparr> v_status = Error,
                          message = ''Failed to record payment verification.'',
                          v_amount = None \<rparr>, st))
       \<and> (\<forall>st'. insert_payment st \<lparr> p_txid = t, client_name = cname, client_phone = cphone,
                                     verified_amount = paid_amount,
                                     verification_status = ''approved'', created_at = now \<rparr> = Inr st'
            \<longrightarrow> verify_payment_with_client_details st now t cname cphone required_amount
                 = (Inr \<lparr> v_status = Approved,
                          message = ''Payment verified successfully! Amount received: ''
                                    @ py_str paid_amount @ '' RWF'',
                          v_amount = Some paid_amount \<rparr>, st'))"
  using assms
  by (auto simp: verify_payment_with_client_details_def row_get_def Let_def
           split: option.splits pyval.splits sum.splits bool.splits if_splits)

theorem insert_failure_is_error_outcome_witness:
  "verify_payment_with_client_details
      (example_store (example_row ''TX2'' ''150 RWF'' ''john smith'' ''56'') False)
      ''2024-01-01T10:00:00'' ''TX2'' ''John Smith'' ''+250788123456'' 100
     = (Inr \<lparr> v_status = Error, message = ''Failed to record payment verification.'',
               v_amount = None \<rparr>,
        example_store (example_row ''TX2'' ''150 RWF'' ''john smith'' ''56'') False)
   \<and> fst (verify_payment_with_client_details
      (example_store (example_row ''TX2'' ''150 RWF'' ''john smith'' ''56'') True)
      ''2024-01-01T10:00:00'' ''TX2'' ''John Smith'' ''+250788123456'' 100)
     = Inr \<lparr> v_status = Approved,
              message = ''Payment verified successfully! Amount received: 150 RWF'',
              v_amount = Some 150 \<rparr>"
proof -
  have l: "(100::int) \<le> 150" by simp
  have n: "py_strip (py_lower ''john smith'') \<noteq> []" by code_simp
  have c: "py_in (py_strip (py_lower ''John Smith'')) (py_strip (py_lower ''john smith''))
           \<or> py_in (py_strip (py_lower ''john smith'')) (py_strip (py_lower ''John Smith''))"
    by code_simp
  have e: "endswith (last_n 3 (py_replace ''-'' [] (py_replace '' '' []
                       (py_replace ''+'' [] ''+250788123456'')))) (last_n 2 ''56'')"
    by code_simp
  have p: "\<And>ok. \<not> truthy (row_get (example_row ''TX2'' ''150 RWF'' ''john smith'' ''56'')
                          ''sender_phone_digits'' (PyStr []))
           \<or> (\<exists>pd. row_get (example_row ''TX2'' ''150 RWF'' ''john smith'' ''56'')
                          ''sender_phone_digits'' (PyStr []) = PyStr pd
                  \<and> endswith (last_n 3 (py_replace ''-'' [] (py_replace '' '' []
                                 (py_replace ''+'' [] ''+250788123456'')))) (last_n 2 pd))"
    using e by (simp add: example_phone)
  have m: "py_str 150 = ''150''" by code_simp
  have f: "insert_payment (example_store (example_row ''TX2'' ''150 RWF'' ''john smith'' ''56'') False)
             \<lparr> p_txid = ''TX2'', client_name = ''John Smith'', client_phone = ''+250788123456'',
               verified_amount = 150, verification_status = ''approved'',
               created_at = ''2024-01-01T10:00:00'' \<rparr> = Inl StoreError"
    by (simp add: insert_payment_def example_store_def)
  have g: "insert_payment (example_store (example_row ''TX2'' ''150 RWF'' ''john smith'' ''56'') True)
             \<lparr> p_txid = ''TX2'', client_name = ''John Smith'', client_phone = ''+250788123456'',
               verified_amount = 150, verification_status = ''approved'',
               created_at = ''2024-01-01T10:00:00'' \<rparr>
           = Inr ((example_store (example_row ''TX2'' ''150 RWF'' ''john smith'' ''56'') True)
                   \<lparr> payments := [\<lparr> p_txid = ''TX2'', client_name = ''John Smith'',
                         client_phone = ''+250788123456'', verified_amount = 150,
                         verification_status = ''approved'',
                         created_at = ''2024-01-01T10:00:00'' \<rparr>] \<rparr>)"
    by (simp add: insert_payment_def example_store_def)
  show ?thesis
    using insert_failure_is_error_outcome
            [OF example_select example_amount amount_150 l example_sender n c p,
             of False "''2024-01-01T10:00:00''"]
          insert_failure_is_error_outcome
            [OF example_select example_amount amount_150 l example_sender n c p,
             of True "''2024-01-01T10:00:00''"] f g m
    by simp
qed

text \<open>
  Claim C9, amended. For a stored record whose sender name is non-empty after lowercasing
  and trimming and whose parsed amount is at least the required amount, a claimed name that
  is empty after lowercasing and trimming passes the name rule; with matching or absent
  stored phone digits and a successful insert of the audit record the call is approved.
\<close>

theorem blank_name_approved:
  assumes "select_txid st t = Inr (transaction # rest)"
      and "transaction ''amount'' = Some (PyStr a)"
      and "py_int (amount_str_of a) = Some paid_amount"
      and "required_amount \<le> paid_amount"
      and "row_get transaction ''sender_name'' (PyStr []) = PyStr sn"
      and "py_strip (py_lower sn) \<noteq> []"
      and "py_strip (py_lower cname) = []"
      and "\<not> truthy (row_get transaction ''sender_phone_digits'' (PyStr []))
           \<or> (\<exists>pd. row_get transaction ''sender_phone_digits'' (PyStr []) = PyStr pd
                  \<and> endswith (last_n 3 (py_replace ''-'' [] (py_replace '' '' []
                                           (py_replace ''+'' [] cphone)))) (last_n 2 pd))"
      and "insert_ok st"
  shows "fst (verify_payment_with_client_details st now t cname cphone required_amount)
         = Inr \<lparr> v_status = Approved,
                  message = ''Payment verified successfully! Amount received: ''
                            @ py_str paid_amount @ '' RWF'',
                  v_amount = Some paid_amount \<rparr>"
  using assms py_in_empty [of "py_strip (py_lower sn)"]
  by (auto simp: verify_payment_with_client_details_def row_get_def Let_def insert_payment_def
           split: option.splits pyval.splits sum.splits bool.splits if_splits)

theorem blank_name_approved_witness:
  "fst (verify_payment_with_client_details
          (example_store (example_row ''TX2'' ''150 RWF'' ''john smith'' ''56'') True)
          ''2024-01-01T10:00:00'' ''TX2'' ''  '' ''+250788123456'' 100)
     = Inr \<lparr> v_status = Approved,
              message = ''Payment verified successfully! Amount received: 150 RWF'',
              v_amount = Some 150 \<rparr>"
proof -
  have l: "(100::int) \<le> 150" by simp
  have n: "py_strip (py_lower ''john smith'') \<noteq> []" by code_simp
  have b: "py_strip (py_lower ''  '') = []" by code_simp
  have e: "endswith (last_n 3 (py_replace ''-'' [] (py_replace '' '' []
                       (py_replace ''+'' [] ''+250788123456'')))) (last_n 2 ''56'')"
    by code_simp
  have p: "\<not> truthy (row_get (example_row ''TX2'' ''150 RWF'' ''john smith'' ''56'')
                          ''sender_phone_digits'' (PyStr []))
           \<or> (\<exists>pd. row_get (example_row ''TX2'' ''150 RWF'' ''john smith'' ''56'')
                          ''sender_phone_digits'' (PyStr []) = PyStr pd
                  \<and> endswith (last_n 3 (py_replace ''-'' [] (py_replace '' '' []
                                 (py_replace ''+'' [] ''+250788123456'')))) (last_n 2 pd))"
    using e by (simp add: example_phone)
  have i: "insert_ok (example_store (example_row ''TX2'' ''150 RWF'' ''john smith'' ''56'') True)"
    by (simp add: example_store_def)
  have m: "py_str 150 = ''150''" by code_simp
  show ?thesis
    using blank_name_approved
            [OF example_select example_amount amount_150 l example_sender n b p i,
             of "''2024-01-01T10:00:00''"] m
    by simp
qed

text \<open>
  Claim C9 as first stated fails on two inputs with a blank claimed name and an amount of
  150 against 100: a stored sender name of two spaces is non-empty and is rejected by the
  name rule, and a store that refuses the insert gives the error outcome.
\<close>

theorem blank_name_counterexample:
  "''  '' \<noteq> []
   \<and> py_int (amount_str_of ''150 RWF'') = Some 150 \<and> (100::int) \<le> 150
   \<and> py_strip (py_lower []) = []
   \<and> fst (verify_payment_with_client_details
             (example_store (example_row ''TX2'' ''150 RWF'' ''  '' ''56'') True)
             ''2024-01-01T10:00:00'' ''TX2'' [] ''+250788123456'' 100)
       = Inr \<lparr> v_status = NotApproved,
                message = ''Name verification failed. Please ensure you entered the correct name.'',
                v_amount = None \<rparr>
   \<and> fst (verify_payment_with_client_details
             (example_store (example_row ''TX2'' ''150 RWF'' ''john smith'' ''56'') False)
             ''2024-01-01T10:00:00'' ''TX2'' [] ''+250788123456'' 100)
       = Inr \<lparr> v_status = Error, message = ''Failed to record payment verification.'',
                v_amount = None \<rparr>"
  by code_simp

section \<open>Claims about field extraction\<close>

text \<open>
  Claim C5. \<open>extract_fields\<close> searches for \<open>TxId\<close> with the case as written, so the
  lower-case form \<open>txid: 123\<close> gives no transaction id, while \<open>extract_payment_info\<close>
  searches the same text ignoring case and finds 123.
\<close>

theorem extract_fields_txid_case_sensitive:
  "txid (extract_fields ''paid txid: 123'') = []
   \<and> txid (extract_fields ''txid: 123'') = []
   \<and> info_txid (extract_payment_info ''paid txid: 123'') = ''123''
   \<and> txid (extract_fields ''paid TxId: 123'') = ''123''"
  by code_simp



end
